theory Spec2Isabelle
  imports Main
begin

section \<open>State definitions and schemas of the research scoping workflow\<close>

text \<open>
  A shallow embedding of \<^verbatim>\<open>src/Shivi_DeepResearch_Agent/state_scope.py\<close>. The file
  declares the graph state \<^verbatim>\<open>AgentState\<close> (a typed dictionary whose annotated fields
  name the reducer that merges a contribution into the field) and two structured
  output schemas, \<^verbatim>\<open>ClarifyWithUser\<close> and \<^verbatim>\<open>ResearchQuestion\<close>.
\<close>

subsection \<open>Messages and the message reducer\<close>

text \<open>
  Modelled from the spec: \<^verbatim>\<open>BaseMessage\<close> is imported from
  \<^verbatim>\<open>langchain_core.messages\<close> and its class body is not part of the repository.
  Section 3 of the specification gives a message an opaque unique identity, a role
  out of four and a content; identities are values of the type parameter \<open>'i\<close>.
\<close>

datatype role = User | Assistant | System | Tool

record 'i message =
  identity :: 'i
  role :: role
  content :: string

text \<open>
  Modelled from the spec: the reducer \<^verbatim>\<open>add_messages\<close> named at line 39 is imported
  from \<^verbatim>\<open>langgraph.graph.message\<close> and its body is not part of the repository.
  Section 4.1: for each message in incoming, in order: if its identity matches an
  existing entry, replace that entry's content/role in place at its original
  position; otherwise append. \<open>merge_message\<close> is the step for one incoming
  message. The error condition of section 4.1 (a malformed or empty identity) is
  about inputs that the opaque identity type does not contain.
\<close>

fun merge_message :: "'i message list \<Rightarrow> 'i message \<Rightarrow> 'i message list" where
  "merge_message [] m = [m]"
| "merge_message (e # es) m =
     (if identity e = identity m
      then e\<lparr>role := role m, content := content m\<rparr> # es
      else e # merge_message es m)"

fun add_messages :: "'i message list \<Rightarrow> 'i message list \<Rightarrow> 'i message list" where
  "add_messages left [] = left"
| "add_messages left (m # right) = add_messages (merge_message left m) right"

subsection \<open>The text accumulators\<close>

text \<open>
  Lines 41 and 43: \<^verbatim>\<open>raw_notes: Annotated[list[str], operator.add] = []\<close> and the
  same for \<^verbatim>\<open>notes\<close>. Python's \<^verbatim>\<open>operator.add(a, b)\<close> is \<^verbatim>\<open>a + b\<close>, which on two
  lists builds the list of the elements of \<^verbatim>\<open>a\<close> followed by those of \<^verbatim>\<open>b\<close>.
\<close>

definition operator_add :: "'a list \<Rightarrow> 'a list \<Rightarrow> 'a list" where
  "operator_add a b = a @ b"

subsection \<open>Errors\<close>

text \<open>
  The only error the declarations of the file can cause is the validation error of
  a schema: one entry per field that failed, as pydantic reports it.
\<close>

datatype field_error = Missing string | String_type string | Bool_type string

datatype error = ValidationError "field_error list"

subsection \<open>AgentState\<close>

text \<open>
  Lines 26 to 45. \<^verbatim>\<open>messages\<close> is inherited from \<^verbatim>\<open>MessagesState\<close> (reducer
  \<^verbatim>\<open>add_messages\<close>). \<^verbatim>\<open>research_brief\<close> is \<^verbatim>\<open>Optional[str]\<close>; \<^verbatim>\<open>final_report\<close> is
  a key that is absent until it is written, so both are options here.
\<close>

record 'i AgentState =
  messages :: "'i message list"
  research_brief :: "string option"
  supervisor_messages :: "'i message list"
  raw_notes :: "string list"
  "notes" :: "string list"
  final_report :: "string option"

text \<open>The state of a new session: the accumulators start at their default \<^verbatim>\<open>[]\<close>.\<close>

definition initial_state :: "'i AgentState" where
  "initial_state =
     \<lparr>messages = [], AgentState.research_brief = None, supervisor_messages = [],
      raw_notes = [], notes = [], final_report = None\<rparr>"

text \<open>
  A write is one key of the dictionary a stage returns, with its value. A field
  annotated with a reducer receives \<open>reducer old new\<close>; a field without one
  (\<^verbatim>\<open>research_brief\<close>, \<^verbatim>\<open>final_report\<close>) is overwritten. The class body holds field
  declarations only: no validator, no setter and no assertion, so no clause has an
  error branch and every write returns normally (\<open>Inr\<close>).
\<close>

datatype 'i field_write =
    Write_messages "'i message list"
  | Write_research_brief "string option"
  | Write_supervisor_messages "'i message list"
  | Write_raw_notes "string list"
  | Write_notes "string list"
  | Write_final_report string

fun apply_write :: "'i AgentState \<Rightarrow> 'i field_write \<Rightarrow> error + 'i AgentState" where
  "apply_write s (Write_messages c) = Inr (s\<lparr>messages := add_messages (messages s) c\<rparr>)"
| "apply_write s (Write_research_brief b) = Inr (s\<lparr>AgentState.research_brief := b\<rparr>)"
| "apply_write s (Write_supervisor_messages c) =
     Inr (s\<lparr>supervisor_messages := add_messages (supervisor_messages s) c\<rparr>)"
| "apply_write s (Write_raw_notes c) = Inr (s\<lparr>raw_notes := operator_add (raw_notes s) c\<rparr>)"
| "apply_write s (Write_notes c) = Inr (s\<lparr>notes := operator_add (notes s) c\<rparr>)"
| "apply_write s (Write_final_report r) = Inr (s\<lparr>final_report := Some r\<rparr>)"

text \<open>Writes applied one after the other; an error would stop the sequence.\<close>

fun apply_writes :: "'i AgentState \<Rightarrow> 'i field_write list \<Rightarrow> error + 'i AgentState" where
  "apply_writes s [] = Inr s"
| "apply_writes s (w # ws) =
     (case apply_write s w of Inl e \<Rightarrow> Inl e | Inr s' \<Rightarrow> apply_writes s' ws)"

subsection \<open>Structured output schemas\<close>

text \<open>
  A decision object is what the model layer returns for a schema: a dictionary from
  field names to JSON values (floating point numbers, arrays and nested objects are
  left out: no field of the two schemas accepts one).
\<close>

datatype json = JNull | JBool bool | JInt int | JStr string

type_synonym decision_object = "string \<rightharpoonup> json"

text \<open>
  A field declared \<^verbatim>\<open>name: str = Field(description=...)\<close> has no default, so it is
  required, and it carries no constraint besides its type: a missing key and a value
  that is not a string are the two failures. The description is documentation only.
\<close>

definition validate_str :: "decision_object \<Rightarrow> string \<Rightarrow> field_error + string" where
  "validate_str obj k =
     (case obj k of
        None \<Rightarrow> Inl (Missing k)
      | Some (JStr s) \<Rightarrow> Inr s
      | Some _ \<Rightarrow> Inl (String_type k))"

text \<open>
  A required \<^verbatim>\<open>bool\<close> field. A JSON boolean is accepted as it is; which other values
  pydantic converts to a boolean is a table of the library, taken as the parameter
  \<open>lax_bool\<close>.
\<close>

definition validate_bool ::
  "(json \<Rightarrow> bool option) \<Rightarrow> decision_object \<Rightarrow> string \<Rightarrow> field_error + bool" where
  "validate_bool lax_bool obj k =
     (case obj k of
        None \<Rightarrow> Inl (Missing k)
      | Some (JBool b) \<Rightarrow> Inr b
      | Some v \<Rightarrow> (case lax_bool v of Some b \<Rightarrow> Inr b | None \<Rightarrow> Inl (Bool_type k)))"

definition errors_of :: "field_error + 'a \<Rightarrow> field_error list" where
  "errors_of r = (case r of Inl e \<Rightarrow> [e] | Inr _ \<Rightarrow> [])"

text \<open>Lines 49 to 60: three required fields.\<close>

record ClarifyWithUser =
  need_clarification :: bool
  question :: string
  verification :: string

definition ClarifyWithUser_validate ::
  "(json \<Rightarrow> bool option) \<Rightarrow> decision_object \<Rightarrow> error + ClarifyWithUser" where
  "ClarifyWithUser_validate lax_bool obj =
     (case (validate_bool lax_bool obj ''need_clarification'',
            validate_str obj ''question'',
            validate_str obj ''verification'') of
        (Inr b, Inr q, Inr v) \<Rightarrow>
          Inr \<lparr>need_clarification = b, question = q, verification = v\<rparr>
      | (b, q, v) \<Rightarrow> Inl (ValidationError (errors_of b @ errors_of q @ errors_of v)))"

text \<open>Lines 62 to 67: one required field.\<close>

record ResearchQuestion =
  research_brief :: string

definition ResearchQuestion_validate :: "decision_object \<Rightarrow> error + ResearchQuestion" where
  "ResearchQuestion_validate obj =
     (case validate_str obj ''research_brief'' of
        Inr s \<Rightarrow> Inr \<lparr>ResearchQuestion.research_brief = s\<rparr>
      | Inl e \<Rightarrow> Inl (ValidationError [e]))"

section \<open>The message log\<close>

subsection \<open>One incoming message\<close>

lemma merge_message_identities:
  "map identity (merge_message log m) =
     (if identity m \<in> set (map identity log) then map identity log
      else map identity log @ [identity m])"
  by (induction log) auto

lemma merge_message_identity_set:
  "identity ` set (merge_message log m) = insert (identity m) (identity ` set log)"
  by (induction log) auto

lemma merge_message_new:
  "identity m \<notin> set (map identity log) \<Longrightarrow> merge_message log m = log @ [m]"
  by (induction log) auto

lemma merge_message_seen:
  "identity m \<in> set (map identity log) \<Longrightarrow>
   \<exists>i<length log. identity (log ! i) = identity m
      \<and> (\<forall>j<i. identity (log ! j) \<noteq> identity m)
      \<and> merge_message log m = log[i := m]"
proof (induction log)
  case Nil
  then show ?case by simp
next
  case (Cons e es)
  show ?case
  proof (cases "identity e = identity m")
    case True
    then have "merge_message (e # es) m = (e # es)[0 := m]" by simp
    with True show ?thesis by (intro exI[of _ 0]) simp
  next
    case False
    with Cons.prems have "identity m \<in> set (map identity es)" by simp
    from Cons.IH[OF this] obtain i where i: "i < length es" "identity (es ! i) = identity m"
      "\<forall>j<i. identity (es ! j) \<noteq> identity m" "merge_message es m = es[i := m]" by blast
    show ?thesis
    proof (intro exI[of _ "Suc i"] conjI allI impI)
      fix j assume "j < Suc i"
      then show "identity ((e # es) ! j) \<noteq> identity m"
        using False i(3) by (cases j) auto
    qed (use False i in auto)
  qed
qed

lemma merge_message_absorb:
  "identity a = identity b \<Longrightarrow> merge_message (merge_message log a) b = merge_message log b"
  by (induction log) auto

lemma merge_message_commute:
  "identity a \<noteq> identity b \<Longrightarrow> identity a \<in> set (map identity log) \<Longrightarrow>
   merge_message (merge_message log b) a = merge_message (merge_message log a) b"
  by (induction log) auto

subsection \<open>A sequence of incoming messages\<close>

lemma add_messages_append:
  "add_messages log (xs @ ys) = add_messages (add_messages log xs) ys"
  by (induction xs arbitrary: log) auto

lemma add_messages_identity_set:
  "identity ` set (add_messages log inc) = identity ` set log \<union> identity ` set inc"
proof (induction inc arbitrary: log)
  case Nil
  then show ?case by simp
next
  case (Cons m ms)
  have "identity ` set (add_messages log (m # ms))
        = identity ` set (merge_message log m) \<union> identity ` set ms"
    using Cons.IH[of "merge_message log m"] by simp
  also have "\<dots> = identity ` set log \<union> identity ` set (m # ms)"
    by (simp only: merge_message_identity_set) auto
  finally show ?case .
qed

lemma merge_absorbs_earlier:
  "identity ` set inc \<subseteq> identity ` set log \<Longrightarrow>
   merge_message (add_messages (merge_message log m) inc) m
     = merge_message (add_messages log inc) m"
proof (induction inc arbitrary: log)
  case Nil
  then show ?case by (simp add: merge_message_absorb)
next
  case (Cons j js)
  from Cons.prems have j: "identity j \<in> set (map identity log)"
    by auto
  from Cons.prems have js: "identity ` set js \<subseteq> identity ` set (merge_message log j)"
    by (auto simp: merge_message_identity_set)
  show ?case
  proof (cases "identity j = identity m")
    case True
    then have "merge_message (merge_message log m) j = merge_message log j"
      by (simp add: merge_message_absorb)
    then show ?thesis by simp
  next
    case False
    have "merge_message (merge_message log m) j = merge_message (merge_message log j) m"
      by (rule merge_message_commute[OF False j])
    then show ?thesis using Cons.IH[OF js] by simp
  qed
qed

lemma add_messages_idempotent:
  "add_messages (add_messages log inc) inc = add_messages log inc"
proof (induction inc rule: rev_induct)
  case Nil
  then show ?case by simp
next
  case (snoc m js)
  let ?L = "add_messages log js"
  have sub: "identity ` set js \<subseteq> identity ` set ?L"
    by (simp add: add_messages_identity_set)
  have "add_messages (add_messages log (js @ [m])) (js @ [m])
        = merge_message (add_messages (merge_message ?L m) js) m"
    by (simp add: add_messages_append)
  also have "\<dots> = merge_message (add_messages ?L js) m"
    using sub by (rule merge_absorbs_earlier)
  also have "\<dots> = merge_message ?L m"
    by (simp only: snoc.IH)
  also have "\<dots> = add_messages log (js @ [m])"
    by (simp add: add_messages_append)
  finally show ?case .
qed

lemma add_messages_distinct:
  "distinct (map identity log) \<Longrightarrow> distinct (map identity (add_messages log inc))"
proof (induction inc arbitrary: log)
  case Nil
  then show ?case by simp
next
  case (Cons m ms)
  from Cons.prems have "distinct (map identity (merge_message log m))"
    by (simp add: merge_message_identities)
  then show ?case using Cons.IH by simp
qed

subsection \<open>The claims about the message log\<close>

text \<open>
  C1. The merge processes the incoming messages in order: merging a sequence is
  merging its first message and then the rest, and merging xs followed by ys is
  merging xs and then ys. A message whose identity matches an entry of the log
  replaces that entry at its position (the first entry of that identity), all other
  positions keeping their entries; a message with a new identity is appended at the
  end of the log.
\<close>

theorem message_merge_in_order:
  "add_messages log [] = log
   \<and> add_messages log (m # inc) = add_messages (add_messages log [m]) inc
   \<and> add_messages log (xs @ ys) = add_messages (add_messages log xs) ys
   \<and> (identity m \<in> identity ` set log \<longrightarrow>
        (\<exists>i<length log. identity (log ! i) = identity m
            \<and> (\<forall>j<i. identity (log ! j) \<noteq> identity m)
            \<and> add_messages log [m] = log[i := m]))
   \<and> (identity m \<notin> identity ` set log \<longrightarrow> add_messages log [m] = log @ [m])"
proof (intro conjI impI)
  show "add_messages log (xs @ ys) = add_messages (add_messages log xs) ys"
    by (rule add_messages_append)
next
  assume "identity m \<in> identity ` set log"
  then have "identity m \<in> set (map identity log)" by simp
  from merge_message_seen[OF this]
  show "\<exists>i<length log. identity (log ! i) = identity m
            \<and> (\<forall>j<i. identity (log ! j) \<noteq> identity m)
            \<and> add_messages log [m] = log[i := m]"
    by simp
next
  assume "identity m \<notin> identity ` set log"
  then have "identity m \<notin> set (map identity log)" by simp
  then show "add_messages log [m] = log @ [m]"
    by (simp add: merge_message_new)
qed simp_all

theorem message_merge_in_order_witness:
  "identity \<lparr>identity = 1::nat, role = User, content = ''q2''\<rparr>
      \<in> identity ` set [\<lparr>identity = 1, role = User, content = ''q''\<rparr>,
                         \<lparr>identity = 2, role = Assistant, content = ''a''\<rparr>]
   \<and> identity \<lparr>identity = 3::nat, role = Tool, content = ''t''\<rparr>
      \<notin> identity ` set [\<lparr>identity = 1, role = User, content = ''q''\<rparr>,
                         \<lparr>identity = 2, role = Assistant, content = ''a''\<rparr>]
   \<and> add_messages [\<lparr>identity = 1::nat, role = User, content = ''q''\<rparr>,
                    \<lparr>identity = 2, role = Assistant, content = ''a''\<rparr>]
        [\<lparr>identity = 1, role = User, content = ''q2''\<rparr>]
      = [\<lparr>identity = 1, role = User, content = ''q2''\<rparr>,
         \<lparr>identity = 2, role = Assistant, content = ''a''\<rparr>]
   \<and> add_messages [\<lparr>identity = 1::nat, role = User, content = ''q''\<rparr>,
                    \<lparr>identity = 2, role = Assistant, content = ''a''\<rparr>]
        [\<lparr>identity = 3, role = Tool, content = ''t''\<rparr>]
      = [\<lparr>identity = 1, role = User, content = ''q''\<rparr>,
         \<lparr>identity = 2, role = Assistant, content = ''a''\<rparr>,
         \<lparr>identity = 3, role = Tool, content = ''t''\<rparr>]"
  using message_merge_in_order
          [of "[\<lparr>identity = 1::nat, role = User, content = ''q''\<rparr>,
                \<lparr>identity = 2, role = Assistant, content = ''a''\<rparr>]"
              "\<lparr>identity = 1::nat, role = User, content = ''q2''\<rparr>" "[]" "[]" "[]"]
        message_merge_in_order
          [of "[\<lparr>identity = 1::nat, role = User, content = ''q''\<rparr>,
                \<lparr>identity = 2, role = Assistant, content = ''a''\<rparr>]"
              "\<lparr>identity = 3::nat, role = Tool, content = ''t''\<rparr>" "[]" "[]" "[]"]
  by simp

text \<open>
  C3. Merging a message whose identity is already present changes neither the
  length of the log nor the identity found at any position: the matching entry is
  updated where it stands. Merging the same incoming sequence a second time gives
  the log that merging it once gave.
\<close>

theorem message_merge_idempotent:
  "(identity m \<in> identity ` set log \<longrightarrow>
      length (add_messages log [m]) = length log
      \<and> map identity (add_messages log [m]) = map identity log
      \<and> (\<exists>i<length log. identity (log ! i) = identity m
            \<and> add_messages log [m] = log[i := m]))
   \<and> add_messages (add_messages log inc) inc = add_messages log inc"
proof (intro conjI impI)
  assume seen: "identity m \<in> identity ` set log"
  then have seen': "identity m \<in> set (map identity log)" by simp
  from merge_message_seen[OF seen'] obtain i where
    i: "i < length log" "identity (log ! i) = identity m" "merge_message log m = log[i := m]"
    by blast
  from i show "length (add_messages log [m]) = length log" by simp
  from seen show "map identity (add_messages log [m]) = map identity log"
    by (simp add: merge_message_identities)
  from i show "\<exists>i<length log. identity (log ! i) = identity m
            \<and> add_messages log [m] = log[i := m]"
    by auto
next
  show "add_messages (add_messages log inc) inc = add_messages log inc"
    by (rule add_messages_idempotent)
qed

theorem message_merge_idempotent_witness:
  "identity \<lparr>identity = 2::nat, role = Assistant, content = ''b''\<rparr>
      \<in> identity ` set [\<lparr>identity = 1, role = User, content = ''q''\<rparr>,
                         \<lparr>identity = 2, role = Assistant, content = ''a''\<rparr>]
   \<and> length (add_messages [\<lparr>identity = 1::nat, role = User, content = ''q''\<rparr>,
                    \<lparr>identity = 2, role = Assistant, content = ''a''\<rparr>]
        [\<lparr>identity = 2, role = Assistant, content = ''b''\<rparr>]) = 2
   \<and> add_messages
        (add_messages [\<lparr>identity = 1::nat, role = User, content = ''q''\<rparr>,
                       \<lparr>identity = 2, role = Assistant, content = ''a''\<rparr>]
           [\<lparr>identity = 2, role = Assistant, content = ''b''\<rparr>,
            \<lparr>identity = 3, role = Tool, content = ''t''\<rparr>,
            \<lparr>identity = 2, role = Assistant, content = ''c''\<rparr>])
        [\<lparr>identity = 2, role = Assistant, content = ''b''\<rparr>,
         \<lparr>identity = 3, role = Tool, content = ''t''\<rparr>,
         \<lparr>identity = 2, role = Assistant, content = ''c''\<rparr>]
      = [\<lparr>identity = 1, role = User, content = ''q''\<rparr>,
         \<lparr>identity = 2, role = Assistant, content = ''c''\<rparr>,
         \<lparr>identity = 3, role = Tool, content = ''t''\<rparr>]"
  using message_merge_idempotent
          [of "\<lparr>identity = 2::nat, role = Assistant, content = ''b''\<rparr>"
              "[\<lparr>identity = 1::nat, role = User, content = ''q''\<rparr>,
                \<lparr>identity = 2, role = Assistant, content = ''a''\<rparr>]"
              "[\<lparr>identity = 2, role = Assistant, content = ''b''\<rparr>,
                \<lparr>identity = 3, role = Tool, content = ''t''\<rparr>,
                \<lparr>identity = 2, role = Assistant, content = ''c''\<rparr>]"]
  by simp

text \<open>
  C4. Two single-message contributions with distinct identities, neither present
  in the log: merged in either order, the log is followed by the two messages in
  the order of the two merge calls, and each of the two messages occurs exactly
  once in the result.
\<close>

theorem message_merge_two_contributions:
  assumes "identity a \<noteq> identity b"
    and "identity a \<notin> identity ` set log"
    and "identity b \<notin> identity ` set log"
  shows "add_messages (add_messages log [a]) [b] = log @ [a, b]
    \<and> add_messages (add_messages log [b]) [a] = log @ [b, a]
    \<and> count_list (add_messages (add_messages log [a]) [b]) a = 1
    \<and> count_list (add_messages (add_messages log [a]) [b]) b = 1
    \<and> count_list (add_messages (add_messages log [b]) [a]) a = 1
    \<and> count_list (add_messages (add_messages log [b]) [a]) b = 1"
proof -
  from assms have new: "identity a \<notin> set (map identity log)" "identity b \<notin> set (map identity log)"
    by simp_all
  from assms have notin: "a \<notin> set log" "b \<notin> set log" and ne: "a \<noteq> b"
    by auto
  have ab: "add_messages (add_messages log [a]) [b] = log @ [a, b]"
    using assms(1) new by (simp add: merge_message_new)
  have ba: "add_messages (add_messages log [b]) [a] = log @ [b, a]"
    using assms(1) new by (simp add: merge_message_new)
  from notin have c: "count_list log a = 0" "count_list log b = 0"
    by (simp_all add: count_list_0_iff)
  show ?thesis
    unfolding ab ba using c ne by simp
qed

theorem message_merge_two_contributions_witness:
  "identity \<lparr>identity = 1::nat, role = Assistant, content = ''a''\<rparr>
     \<noteq> identity \<lparr>identity = 2::nat, role = Tool, content = ''b''\<rparr>
   \<and> add_messages (add_messages [\<lparr>identity = 0, role = User, content = ''q''\<rparr>]
        [\<lparr>identity = 1::nat, role = Assistant, content = ''a''\<rparr>])
        [\<lparr>identity = 2, role = Tool, content = ''b''\<rparr>]
      = [\<lparr>identity = 0, role = User, content = ''q''\<rparr>,
         \<lparr>identity = 1, role = Assistant, content = ''a''\<rparr>,
         \<lparr>identity = 2, role = Tool, content = ''b''\<rparr>]
   \<and> add_messages (add_messages [\<lparr>identity = 0, role = User, content = ''q''\<rparr>]
        [\<lparr>identity = 2::nat, role = Tool, content = ''b''\<rparr>])
        [\<lparr>identity = 1, role = Assistant, content = ''a''\<rparr>]
      = [\<lparr>identity = 0, role = User, content = ''q''\<rparr>,
         \<lparr>identity = 2, role = Tool, content = ''b''\<rparr>,
         \<lparr>identity = 1, role = Assistant, content = ''a''\<rparr>]"
  using message_merge_two_contributions
          [of "\<lparr>identity = 1::nat, role = Assistant, content = ''a''\<rparr>"
              "\<lparr>identity = 2::nat, role = Tool, content = ''b''\<rparr>"
              "[\<lparr>identity = 0::nat, role = User, content = ''q''\<rparr>]"]
  by simp

text \<open>
  C5. Identity uniqueness is an invariant of the merge: if the identities of the
  log are pairwise distinct, so are those of the log after merging any incoming
  sequence (which may itself repeat identities).
\<close>

theorem message_identities_stay_distinct:
  "distinct (map identity log) \<Longrightarrow> distinct (map identity (add_messages log inc))"
  by (rule add_messages_distinct)

theorem message_identities_stay_distinct_witness:
  "distinct (map identity [\<lparr>identity = 1::nat, role = User, content = ''q''\<rparr>,
                           \<lparr>identity = 2, role = Assistant, content = ''a''\<rparr>])
   \<and> distinct (map identity
        (add_messages [\<lparr>identity = 1::nat, role = User, content = ''q''\<rparr>,
                       \<lparr>identity = 2, role = Assistant, content = ''a''\<rparr>]
           [\<lparr>identity = 2, role = Assistant, content = ''b''\<rparr>,
            \<lparr>identity = 3, role = Tool, content = ''t''\<rparr>,
            \<lparr>identity = 3, role = Tool, content = ''u''\<rparr>]))"
  using message_identities_stay_distinct
          [of "[\<lparr>identity = 1::nat, role = User, content = ''q''\<rparr>,
                \<lparr>identity = 2, role = Assistant, content = ''a''\<rparr>]"
              "[\<lparr>identity = 2, role = Assistant, content = ''b''\<rparr>,
                \<lparr>identity = 3, role = Tool, content = ''t''\<rparr>,
                \<lparr>identity = 3, role = Tool, content = ''u''\<rparr>]"]
  by simp

section \<open>The text accumulators\<close>

text \<open>
  C2. For every accumulator E and every contribution C the merge returns E followed
  by C: the result begins with E, ends with C and has the length of both, so
  nothing is dropped, deduplicated or reordered. Starting from the empty
  accumulator, merging [a] then [b] gives [a, b], and merging [a] twice gives
  [a, a]. Both accumulator fields of the state are merged this way.
\<close>

theorem accumulator_merge_concatenates:
  "operator_add E C = E @ C
   \<and> take (length E) (operator_add E C) = E
   \<and> drop (length E) (operator_add E C) = C
   \<and> length (operator_add E C) = length E + length C
   \<and> operator_add (operator_add [] [a]) [b] = [a, b]
   \<and> operator_add (operator_add [] [a]) [a] = [a, a]
   \<and> apply_write s (Write_raw_notes C) = Inr (s\<lparr>raw_notes := raw_notes s @ C\<rparr>)
   \<and> apply_write s (Write_notes C) = Inr (s\<lparr>notes := notes s @ C\<rparr>)"
  by (simp add: operator_add_def)

theorem accumulator_merge_concatenates_witness:
  "operator_add [''a'', ''b''] [''b'', ''a''] = [''a'', ''b'', ''b'', ''a'']
   \<and> operator_add (operator_add [] [''a'']) [''a''] = [''a'', ''a'']"
  using accumulator_merge_concatenates [of "[''a'', ''b'']" "[''b'', ''a'']" "''a''" "''b''" "initial_state :: nat AgentState"]
  by simp

text \<open>
  C10. The empty contribution is a right identity of the accumulator merge, and
  merging C1 then C2 is merging the single contribution C1 followed by C2; the same
  holds for the two accumulator fields of the state, where the empty contribution
  leaves the whole state unchanged.
\<close>

theorem accumulator_merge_monoid:
  "operator_add E [] = E
   \<and> operator_add (operator_add E C1) C2 = operator_add E (operator_add C1 C2)
   \<and> operator_add (operator_add E C1) C2 = operator_add E (C1 @ C2)
   \<and> apply_write s (Write_raw_notes []) = Inr s
   \<and> apply_write s (Write_notes []) = Inr s
   \<and> apply_writes s [Write_raw_notes C1, Write_raw_notes C2]
       = apply_write s (Write_raw_notes (C1 @ C2))
   \<and> apply_writes s [Write_notes C1, Write_notes C2]
       = apply_write s (Write_notes (C1 @ C2))"
  by (simp add: operator_add_def)

theorem accumulator_merge_monoid_witness:
  "operator_add [''n''] [] = [''n'']
   \<and> operator_add (operator_add [''n''] [''a'']) [''b'', ''c'']
       = operator_add [''n''] [''a'', ''b'', ''c'']"
  using accumulator_merge_monoid [of "[''n'']" "[''a'']" "[''b'', ''c'']" "initial_state :: nat AgentState"]
  by (simp add: operator_add_def)

section \<open>The singleton fields\<close>

lemma apply_write_returns: "\<exists>s'. apply_write s w = Inr s'"
  by (cases w) simp_all

text \<open>
  C6, as stated, fails: in the state of a new session \<^verbatim>\<open>notes\<close> is empty and the
  conversation log is empty, and still writing \<^verbatim>\<open>final_report\<close> and writing
  \<^verbatim>\<open>research_brief\<close> both return normally with the field set.
\<close>

theorem ordering_not_enforced_counterexample:
  "notes (initial_state :: nat AgentState) = []
   \<and> messages (initial_state :: nat AgentState) = []
   \<and> apply_write (initial_state :: nat AgentState) (Write_final_report ''report'')
       = Inr \<lparr>messages = [], AgentState.research_brief = None, supervisor_messages = [],
              raw_notes = [], notes = [], final_report = Some ''report''\<rparr>
   \<and> apply_write (initial_state :: nat AgentState) (Write_research_brief (Some ''brief''))
       = Inr \<lparr>messages = [], AgentState.research_brief = Some ''brief'',
              supervisor_messages = [], raw_notes = [], notes = [], final_report = None\<rparr>"
  by (simp add: initial_state_def)

text \<open>
  C6, amended. The state declares no dependency-ordering check. Writing
  \<^verbatim>\<open>final_report\<close> or \<^verbatim>\<open>research_brief\<close> returns normally in every state, sets that
  field and leaves every other field as it was; a second write to the field
  replaces the first (last write wins); and no write of any field is refused.
\<close>

theorem singleton_writes_overwrite:
  "apply_write s (Write_final_report r) = Inr (s\<lparr>final_report := Some r\<rparr>)
   \<and> apply_write s (Write_research_brief b) = Inr (s\<lparr>AgentState.research_brief := b\<rparr>)
   \<and> apply_writes s [Write_final_report r0, Write_final_report r]
       = apply_write s (Write_final_report r)
   \<and> apply_writes s [Write_research_brief b0, Write_research_brief b]
       = apply_write s (Write_research_brief b)
   \<and> (\<exists>s'. apply_write s w = Inr s')"
  using apply_write_returns[of s w] by simp

theorem singleton_writes_overwrite_witness:
  "final_report (projr (apply_write (initial_state :: nat AgentState) (Write_final_report ''report'')))
     = Some ''report''
   \<and> apply_writes (initial_state :: nat AgentState)
        [Write_final_report ''draft'', Write_final_report ''report'']
      = apply_write initial_state (Write_final_report ''report'')"
  using singleton_writes_overwrite
          [where s = "initial_state :: nat AgentState" and r = "''report''"
             and ?r0.0 = "''draft''" and b = None and ?b0.0 = None and w = "Write_notes []"]
  by simp

section \<open>The structured output schemas\<close>

lemma validate_str_Inr:
  "validate_str obj k = Inr s \<longleftrightarrow> obj k = Some (JStr s)"
  by (auto simp: validate_str_def split: option.splits json.splits)

text \<open>
  C7, as stated, fails: a decision object whose \<^verbatim>\<open>research_brief\<close> is the empty
  string passes the validation of \<^verbatim>\<open>ResearchQuestion\<close>.
\<close>

theorem empty_brief_accepted_counterexample:
  "ResearchQuestion_validate [''research_brief'' \<mapsto> JStr '''']
     = Inr \<lparr>ResearchQuestion.research_brief = ''''\<rparr>"
  by (simp add: ResearchQuestion_validate_def validate_str_def)

text \<open>
  C7, amended. Validation of \<^verbatim>\<open>ResearchQuestion\<close> fails exactly when
  \<^verbatim>\<open>research_brief\<close> is absent or is not a string; an absent field is reported as
  missing, and every string, the empty one included, is accepted as the brief.
\<close>

theorem research_question_validation:
  "(isl (ResearchQuestion_validate obj) \<longleftrightarrow> (\<forall>s. obj ''research_brief'' \<noteq> Some (JStr s)))
   \<and> (obj ''research_brief'' = None \<longrightarrow>
        ResearchQuestion_validate obj = Inl (ValidationError [Missing ''research_brief'']))
   \<and> (obj ''research_brief'' = Some (JStr s) \<longrightarrow>
        ResearchQuestion_validate obj = Inr \<lparr>ResearchQuestion.research_brief = s\<rparr>)"
  by (auto simp: ResearchQuestion_validate_def validate_str_def
           split: option.splits json.splits)

theorem research_question_validation_witness:
  "Map.empty ''research_brief'' = (None :: json option)
   \<and> ResearchQuestion_validate Map.empty = Inl (ValidationError [Missing ''research_brief''])
   \<and> [''research_brief'' \<mapsto> JStr ''x''] ''research_brief'' = Some (JStr ''x'')
   \<and> ResearchQuestion_validate [''research_brief'' \<mapsto> JStr ''x'']
       = Inr \<lparr>ResearchQuestion.research_brief = ''x''\<rparr>
   \<and> isl (ResearchQuestion_validate [''research_brief'' \<mapsto> JInt 5])"
  using research_question_validation [of Map.empty "''x''"]
        research_question_validation [of "[''research_brief'' \<mapsto> JStr ''x'']" "''x''"]
        research_question_validation [of "[''research_brief'' \<mapsto> JInt 5]" "''x''"]
  by simp

text \<open>
  C9. Validation of \<^verbatim>\<open>ClarifyWithUser\<close> succeeds only when \<^verbatim>\<open>question\<close> and
  \<^verbatim>\<open>verification\<close> are both present as strings, whatever \<^verbatim>\<open>need_clarification\<close>
  says; a decision object in which either field is missing, or is not a string, is
  rejected.
\<close>

theorem clarify_with_user_validation:
  "(ClarifyWithUser_validate lax_bool obj = Inr c \<longrightarrow>
      obj ''question'' = Some (JStr (question c))
      \<and> obj ''verification'' = Some (JStr (verification c)))
   \<and> (obj ''question'' = None \<or> obj ''verification'' = None \<longrightarrow>
        isl (ClarifyWithUser_validate lax_bool obj))
   \<and> ((\<forall>s. obj ''question'' \<noteq> Some (JStr s)) \<or> (\<forall>s. obj ''verification'' \<noteq> Some (JStr s)) \<longrightarrow>
        isl (ClarifyWithUser_validate lax_bool obj))"
proof (intro conjI impI)
  assume ok: "ClarifyWithUser_validate lax_bool obj = Inr c"
  then have fields: "validate_str obj ''question'' = Inr (question c)
      \<and> validate_str obj ''verification'' = Inr (verification c)"
    by (auto simp: ClarifyWithUser_validate_def split: sum.splits)
  from fields show "obj ''question'' = Some (JStr (question c))"
    by (simp add: validate_str_Inr)
  from fields show "obj ''verification'' = Some (JStr (verification c))"
    by (simp add: validate_str_Inr)
next
  assume "(\<forall>s. obj ''question'' \<noteq> Some (JStr s)) \<or> (\<forall>s. obj ''verification'' \<noteq> Some (JStr s))"
  then have "(\<forall>s. validate_str obj ''question'' \<noteq> Inr s)
      \<or> (\<forall>s. validate_str obj ''verification'' \<noteq> Inr s)"
    by (simp add: validate_str_Inr)
  then show "isl (ClarifyWithUser_validate lax_bool obj)"
    by (auto simp: ClarifyWithUser_validate_def split: sum.splits)
next
  assume "obj ''question'' = None \<or> obj ''verification'' = None"
  then have "(\<forall>s. validate_str obj ''question'' \<noteq> Inr s)
      \<or> (\<forall>s. validate_str obj ''verification'' \<noteq> Inr s)"
    by (auto simp: validate_str_Inr)
  then show "isl (ClarifyWithUser_validate lax_bool obj)"
    by (auto simp: ClarifyWithUser_validate_def split: sum.splits)
qed

theorem clarify_with_user_validation_witness:
  "ClarifyWithUser_validate (\<lambda>v. None)
      [''need_clarification'' \<mapsto> JBool False, ''question'' \<mapsto> JStr '''',
       ''verification'' \<mapsto> JStr ''ok'']
     = Inr \<lparr>need_clarification = False, question = '''', verification = ''ok''\<rparr>
   \<and> [''need_clarification'' \<mapsto> JBool False, ''verification'' \<mapsto> JStr ''ok''] ''question''
       = None
   \<and> isl (ClarifyWithUser_validate (\<lambda>v. None)
        [''need_clarification'' \<mapsto> JBool False, ''verification'' \<mapsto> JStr ''ok''])
   \<and> isl (ClarifyWithUser_validate (\<lambda>v. None)
        [''need_clarification'' \<mapsto> JBool True, ''question'' \<mapsto> JStr ''which one?'',
         ''verification'' \<mapsto> JNull])"
  using clarify_with_user_validation
          [of "\<lambda>v. None"
              "[''need_clarification'' \<mapsto> JBool False, ''question'' \<mapsto> JStr '''',
                ''verification'' \<mapsto> JStr ''ok'']"
              "\<lparr>need_clarification = False, question = '''', verification = ''ok''\<rparr>"]
        clarify_with_user_validation
          [of "\<lambda>v. None"
              "[''need_clarification'' \<mapsto> JBool False, ''verification'' \<mapsto> JStr ''ok'']"]
        clarify_with_user_validation
          [of "\<lambda>v. None"
              "[''need_clarification'' \<mapsto> JBool True, ''question'' \<mapsto> JStr ''which one?'',
                ''verification'' \<mapsto> JNull]"]
  by (simp add: ClarifyWithUser_validate_def validate_str_def validate_bool_def)

end
